theory Spec2Isabelle
  imports Main "HOL-Library.Word"
begin

unbundle bit_operations_syntax

section \<open>Common types\<close>

text \<open>
  Go's \<open>int\<close> is a 64-bit two's complement integer on the platforms the SDK targets;
  \<open>+\<close> and \<open>-\<close> wrap around and the comparisons are signed (\<open>sint\<close>).
  A \<open>time.Time\<close> is an instant; it is represented by its number of nanoseconds since the
  Unix epoch, and the reading of the clock (\<open>time.Now()\<close>) is an explicit argument of
  every function that consults it. A \<open>byte\<close> slice and a Go \<open>string\<close> are both byte
  sequences.
\<close>

type_synonym go_int = "64 word"
type_synonym time = int
type_synonym byte = "8 word"

text \<open>Run-time faults of the Go program that are not \<open>error\<close> values.\<close>

datatype panic = NilPointerDereference

text \<open>
  Go \<open>error\<close> values: \<open>fmt.Errorf\<close> with a plain message, or with a message that wraps
  a cause (\<open>%w\<close>).
\<close>

datatype error = Errorf string | Wrapf string error


section \<open>pagination.go\<close>

record Pagination =
  CurrentPage :: go_int
  From :: go_int
  LastPage :: go_int
  PerPage :: go_int
  To :: go_int
  Total :: go_int

text \<open>
  The receivers are pointers (\<open>*Pagination\<close>); \<open>None\<close> is the nil pointer. A field read
  through nil panics, which the model writes out.
\<close>

definition HasNextPage :: "Pagination option \<Rightarrow> bool" where
  "HasNextPage p =
     (case p of
        None \<Rightarrow> False
      | Some q \<Rightarrow> sint (CurrentPage q) < sint (LastPage q))"

definition NextPage :: "Pagination option \<Rightarrow> panic + go_int" where
  "NextPage p =
     (if \<not> HasNextPage p then Inr 0
      else (case p of
              None \<Rightarrow> Inl NilPointerDereference
            | Some q \<Rightarrow> Inr (CurrentPage q + 1)))"

definition HasPreviousPage :: "Pagination option \<Rightarrow> bool" where
  "HasPreviousPage p =
     (case p of
        None \<Rightarrow> False
      | Some q \<Rightarrow> 1 < sint (CurrentPage q))"

definition PreviousPage :: "Pagination option \<Rightarrow> panic + go_int" where
  "PreviousPage p =
     (if \<not> HasPreviousPage p then Inr 0
      else (case p of
              None \<Rightarrow> Inl NilPointerDereference
            | Some q \<Rightarrow> Inr (CurrentPage q - 1)))"


section \<open>auth.go\<close>

record Token =
  AccessToken :: string
  RefreshToken :: string
  TokenType :: string
  Expiry :: time

text \<open>\<open>Token.Valid\<close>, with the value of \<open>time.Now()\<close> as first argument.\<close>

definition Valid :: "time \<Rightarrow> Token \<Rightarrow> bool" where
  "Valid now t = (AccessToken t \<noteq> [] \<and> now < Expiry t)"


text \<open>
  \<open>url.Values\<close> as the list of its keys with their values; \<open>Set\<close> replaces the values
  of a key.
\<close>

type_synonym url_Values = "(string \<times> string list) list"

fun Values_Set :: "string \<Rightarrow> string \<Rightarrow> url_Values \<Rightarrow> url_Values" where
  "Values_Set key v [] = [(key, [v])]"
| "Values_Set key v ((k, vs) # rest) =
     (if k = key then (key, [v]) # rest else (k, vs) # Values_Set key v rest)"

record OAuthConfig =
  ClientID :: string
  ClientSecret :: string
  RedirectURI :: string
  Scopes :: "string list"

text \<open>
  \<open>OAuthConfig.RefreshToken\<close>. The exchange with the token endpoint, \<open>requestToken\<close>, is
  the network: it is the first argument, a function from the form data to the error or
  the token the endpoint's answer yields.
\<close>

definition OAuthConfig_RefreshToken ::
  "(url_Values \<Rightarrow> error + Token) \<Rightarrow> OAuthConfig \<Rightarrow> string \<Rightarrow> error + Token" where
  "OAuthConfig_RefreshToken requestToken c refreshToken =
     requestToken
       (Values_Set ''refresh_token'' refreshToken
         (Values_Set ''client_secret'' (ClientSecret c)
           (Values_Set ''client_id'' (ClientID c)
             (Values_Set ''grant_type'' ''refresh_token'' []))))"


section \<open>The client (Client, newRequest, do)\<close>

text \<open>
  An \<open>http.Request\<close>: the header maps a canonical key to its values (no value: the key
  is absent), and the body is what reading it to the end gives.
\<close>

record Request =
  Method :: string
  URL :: string
  Header :: "string \<Rightarrow> string list"
  Body :: "error + byte list"

definition Header_Get :: "Request \<Rightarrow> string \<Rightarrow> string" where
  "Header_Get r key = (case Header r key of [] \<Rightarrow> [] | v # _ \<Rightarrow> v)"

definition Header_Set :: "string \<Rightarrow> string \<Rightarrow> Request \<Rightarrow> Request" where
  "Header_Set key v r = r\<lparr>Header := (Header r)(key := [v])\<rparr>"

text \<open>
  The fields of \<open>Client\<close> that the token logic reads. The mutex \<open>tokenMu\<close> has no
  counterpart: every function below is one uninterrupted run of its body. The client is
  built by \<open>NewClient\<close> with a configuration, so \<open>oauthConfig\<close> is not nil.
\<close>

record Client =
  baseURL :: string
  userAgent :: string
  oauthConfig :: OAuthConfig
  token :: "Token option"

definition Minute :: int where
  "Minute = 60 * 1000000000"

definition GetToken :: "Client \<Rightarrow> Token option" where
  "GetToken c = token c"

definition SetToken :: "Client \<Rightarrow> Token option \<Rightarrow> Client" where
  "SetToken c t = c\<lparr>token := t\<rparr>"

text \<open>
  \<open>Client.RefreshTokenIfNeeded\<close>, with the network and the value of \<open>time.Now()\<close> as
  arguments. The result is the returned error (\<open>None\<close> is nil), the client afterwards, and
  the refresh tokens with which \<open>oauthConfig.RefreshToken\<close> was called, in order.
  The source tests \<open>c.token != nil && now+5min < Expiry\<close>, then
  \<open>c.token == nil || RefreshToken == ""\<close>; the case distinction on the token below takes
  the same branches.
\<close>

definition RefreshTokenIfNeeded ::
  "(url_Values \<Rightarrow> error + Token) \<Rightarrow> time \<Rightarrow> Client \<Rightarrow> error option \<times> Client \<times> string list" where
  "RefreshTokenIfNeeded requestToken now c =
     (case token c of
        None \<Rightarrow> (Some (Errorf ''no refresh token available''), c, [])
      | Some t \<Rightarrow>
          if now + 5 * Minute < Expiry t then (None, c, [])
          else if RefreshToken t = [] then (Some (Errorf ''no refresh token available''), c, [])
          else (case OAuthConfig_RefreshToken requestToken (oauthConfig c) (RefreshToken t) of
                  Inl err \<Rightarrow> (Some (Wrapf ''failed to refresh token: '' err), c, [RefreshToken t])
                | Inr newToken \<Rightarrow> (None, c\<lparr>token := Some newToken\<rparr>, [RefreshToken t])))"

text \<open>
  \<open>Client.newRequest\<close>. \<open>json.Marshal\<close> of the body and \<open>http.NewRequest\<close> are library
  calls that can fail; they are the first two arguments.
\<close>

definition newRequest ::
  "('b \<Rightarrow> error + byte list) \<Rightarrow> (string \<Rightarrow> string \<Rightarrow> byte list option \<Rightarrow> error + Request) \<Rightarrow>
   Client \<Rightarrow> string \<Rightarrow> string \<Rightarrow> 'b option \<Rightarrow> error + Request" where
  "newRequest json_Marshal http_NewRequest c method path body =
     (let url = baseURL c @ path in
      case (case body of
              None \<Rightarrow> Inr None
            | Some b \<Rightarrow>
                (case json_Marshal b of
                   Inl err \<Rightarrow> Inl (Wrapf ''failed to marshal request body: '' err)
                 | Inr jsonBody \<Rightarrow> Inr (Some jsonBody))) of
        Inl err \<Rightarrow> Inl err
      | Inr bodyReader \<Rightarrow>
          (case http_NewRequest method url bodyReader of
             Inl err \<Rightarrow> Inl (Wrapf ''failed to create request: '' err)
           | Inr req0 \<Rightarrow>
               (let req = Header_Set ''User-Agent'' (userAgent c)
                            (Header_Set ''Accept'' ''application/json''
                              (Header_Set ''Content-Type'' ''application/json'' req0))
                in Inr (case token c of
                          None \<Rightarrow> req
                        | Some t \<Rightarrow>
                            if AccessToken t \<noteq> []
                            then Header_Set ''Authorization'' (''Bearer '' @ AccessToken t) req
                            else req))))"

text \<open>
  \<open>Client.do\<close>. After the refresh step the request goes to \<open>c.httpClient.Do\<close>; the rest of
  the function (the status check and the decoding of the answer) looks at neither the
  token nor the request again and is the argument \<open>roundTrip\<close>, from the request sent to
  the error returned. The result is that error, the client afterwards, the refresh calls
  made, and the request that was handed to the transport.
\<close>

definition do ::
  "(url_Values \<Rightarrow> error + Token) \<Rightarrow> time \<Rightarrow> (Request \<Rightarrow> error option) \<Rightarrow>
   Client \<Rightarrow> Request \<Rightarrow> error option \<times> Client \<times> string list \<times> Request" where
  "do requestToken now roundTrip c req =
     (case RefreshTokenIfNeeded requestToken now c of
        (err, c', calls) \<Rightarrow>
          (let req' =
                 (if err \<noteq> None
                  then (case token c' of
                          None \<Rightarrow> req
                        | Some t \<Rightarrow>
                            if AccessToken t \<noteq> []
                            then Header_Set ''Authorization'' (''Bearer '' @ AccessToken t) req
                            else req)
                  else req)
           in (roundTrip req', c', calls, req')))"



section \<open>crypto/sha256, crypto/hmac, crypto/subtle and encoding/hex\<close>

text \<open>
  \<open>VerifyWebhookSignature\<close> calls the standard library for the digest. SHA-256 is written
  out after FIPS 180-4 on 32-bit words and HMAC after RFC 2104 with the 64-byte block of
  SHA-256, as \<open>hmac.New(sha256.New, key)\<close> computes them.
\<close>

type_synonym u32 = "32 word"

definition rotr :: "nat \<Rightarrow> u32 \<Rightarrow> u32" where
  "rotr n x = (drop_bit n x) OR (push_bit (32 - n) x)"

definition Ch :: "u32 \<Rightarrow> u32 \<Rightarrow> u32 \<Rightarrow> u32" where
  "Ch x y z = (x AND y) XOR (NOT x AND z)"

definition Maj :: "u32 \<Rightarrow> u32 \<Rightarrow> u32 \<Rightarrow> u32" where
  "Maj x y z = (x AND y) XOR (x AND z) XOR (y AND z)"

definition Sigma0 :: "u32 \<Rightarrow> u32" where
  "Sigma0 x = rotr 2 x XOR rotr 13 x XOR rotr 22 x"

definition Sigma1 :: "u32 \<Rightarrow> u32" where
  "Sigma1 x = rotr 6 x XOR rotr 11 x XOR rotr 25 x"

definition sigma0 :: "u32 \<Rightarrow> u32" where
  "sigma0 x = rotr 7 x XOR rotr 18 x XOR drop_bit 3 x"

definition sigma1 :: "u32 \<Rightarrow> u32" where
  "sigma1 x = rotr 17 x XOR rotr 19 x XOR drop_bit 10 x"

definition K256 :: "u32 list" where
  "K256 =
   [0x428A2F98, 0x71374491, 0xB5C0FBCF, 0xE9B5DBA5, 0x3956C25B, 0x59F111F1, 0x923F82A4, 0xAB1C5ED5,
    0xD807AA98, 0x12835B01, 0x243185BE, 0x550C7DC3, 0x72BE5D74, 0x80DEB1FE, 0x9BDC06A7, 0xC19BF174,
    0xE49B69C1, 0xEFBE4786, 0x0FC19DC6, 0x240CA1CC, 0x2DE92C6F, 0x4A7484AA, 0x5CB0A9DC, 0x76F988DA,
    0x983E5152, 0xA831C66D, 0xB00327C8, 0xBF597FC7, 0xC6E00BF3, 0xD5A79147, 0x06CA6351, 0x14292967,
    0x27B70A85, 0x2E1B2138, 0x4D2C6DFC, 0x53380D13, 0x650A7354, 0x766A0ABB, 0x81C2C92E, 0x92722C85,
    0xA2BFE8A1, 0xA81A664B, 0xC24B8B70, 0xC76C51A3, 0xD192E819, 0xD6990624, 0xF40E3585, 0x106AA070,
    0x19A4C116, 0x1E376C08, 0x2748774C, 0x34B0BCB5, 0x391C0CB3, 0x4ED8AA4A, 0x5B9CCA4F, 0x682E6FF3,
    0x748F82EE, 0x78A5636F, 0x84C87814, 0x8CC70208, 0x90BEFFFA, 0xA4506CEB, 0xBEF9A3F7, 0xC67178F2]"

definition H256 :: "u32 list" where
  "H256 = [0x6A09E667, 0xBB67AE85, 0x3C6EF372, 0xA54FF53A,
           0x510E527F, 0x9B05688C, 0x1F83D9AB, 0x5BE0CD19]"

fun be32 :: "byte list \<Rightarrow> u32 list" where
  "be32 (a # b # c # d # bs) =
     (push_bit 24 (ucast a) OR push_bit 16 (ucast b) OR push_bit 8 (ucast c) OR ucast d) # be32 bs"
| "be32 _ = []"

definition bytes32 :: "u32 \<Rightarrow> byte list" where
  "bytes32 w = [ucast (drop_bit 24 w), ucast (drop_bit 16 w), ucast (drop_bit 8 w), ucast w]"

fun schedule :: "nat \<Rightarrow> u32 list \<Rightarrow> u32 list" where
  "schedule 0 ws = []"
| "schedule (Suc n) ws =
     (let w = sigma1 (ws ! 14) + ws ! 9 + sigma0 (ws ! 1) + ws ! 0
      in w # schedule n (tl ws @ [w]))"

fun round256 :: "u32 list \<Rightarrow> u32 \<times> u32 \<Rightarrow> u32 list" where
  "round256 [a, b, c, d, e, f, g, h] (k, w) =
     (let t1 = h + Sigma1 e + Ch e f g + k + w;
          t2 = Sigma0 a + Maj a b c
      in [t1 + t2, a, b, c, d + t1, e, f, g])"
| "round256 s _ = s"

definition block256 :: "u32 list \<Rightarrow> byte list \<Rightarrow> u32 list" where
  "block256 hs blk =
     (let w16 = be32 blk;
          ws = w16 @ schedule 48 w16
      in map2 (+) hs (foldl round256 hs (zip K256 ws)))"

fun blocks256 :: "nat \<Rightarrow> u32 list \<Rightarrow> byte list \<Rightarrow> u32 list" where
  "blocks256 0 hs bs = hs"
| "blocks256 (Suc n) hs bs = blocks256 n (block256 hs (take 64 bs)) (drop 64 bs)"

definition be64 :: "64 word \<Rightarrow> byte list" where
  "be64 n = map (\<lambda>i. ucast (drop_bit (8 * (7 - i)) n)) [0..<8]"

definition pad256 :: "byte list \<Rightarrow> byte list" where
  "pad256 m =
     m @ [0x80] @ replicate ((119 - length m mod 64) mod 64) 0 @ be64 (8 * of_nat (length m))"

definition sha256 :: "byte list \<Rightarrow> byte list" where
  "sha256 m = (let p = pad256 m in concat (map bytes32 (blocks256 (length p div 64) H256 p)))"

definition xor_pad :: "byte \<Rightarrow> byte list \<Rightarrow> byte list" where
  "xor_pad c key = map (\<lambda>b. b XOR c) (key @ replicate (64 - length key) 0)"

definition hmac_sha256 :: "byte list \<Rightarrow> byte list \<Rightarrow> byte list" where
  "hmac_sha256 key m =
     (let k = (if 64 < length key then sha256 key else key)
      in sha256 (xor_pad 0x5c k @ sha256 (xor_pad 0x36 k @ m)))"

text \<open>\<open>hex.EncodeToString\<close>: two lower-case digits for each byte.\<close>

definition hexdigit :: "nat \<Rightarrow> char" where
  "hexdigit n = ''0123456789abcdef'' ! (n mod 16)"

definition EncodeToString :: "byte list \<Rightarrow> string" where
  "EncodeToString bs =
     concat (map (\<lambda>b. [hexdigit (unat b div 16), hexdigit (unat b mod 16)]) bs)"

text \<open>The conversion \<open>[]byte(s)\<close> of a Go string.\<close>

definition bytes_of :: "string \<Rightarrow> byte list" where
  "bytes_of s = map (\<lambda>c. of_nat (of_char c)) s"

text \<open>
  \<open>subtle.ConstantTimeCompare\<close>: 0 when the lengths differ, otherwise 1 exactly when the
  OR of the byte-wise XORs is 0. \<open>hmac.Equal\<close> compares its result with 1.
\<close>

definition ConstantTimeCompare :: "byte list \<Rightarrow> byte list \<Rightarrow> nat" where
  "ConstantTimeCompare x y =
     (if length x \<noteq> length y then 0
      else if foldl (\<lambda>v (a, b). v OR (a XOR b)) 0 (zip x y) = 0 then 1 else 0)"

definition hmac_Equal :: "byte list \<Rightarrow> byte list \<Rightarrow> bool" where
  "hmac_Equal mac1 mac2 = (ConstantTimeCompare mac1 mac2 = 1)"


section \<open>webhook.go\<close>

definition VerifyWebhookSignature :: "string \<Rightarrow> byte list \<Rightarrow> string \<Rightarrow> bool" where
  "VerifyWebhookSignature secret payload signature =
     (let expectedMAC = EncodeToString (hmac_sha256 (bytes_of secret) payload)
      in hmac_Equal (bytes_of signature) (bytes_of expectedMAC))"

text \<open>
  A value of type \<open>interface{}\<close> as \<open>encoding/json\<close> produces it: nil, a bool, a float64
  (its IEEE 754 bits), a string, a slice or a map. A map or a slice that may be nil is an
  \<open>option\<close>.
\<close>

type_synonym float64 = "64 word"

datatype any =
    AnyNil
  | AnyBool bool
  | AnyFloat64 float64
  | AnyString string
  | AnySlice "any list"
  | AnyMap "(string \<times> any) list"

type_synonym go_map = "(string \<times> any) list option"

text \<open>
  \<open>WebhookEvent\<close>, \<open>ProductWebhookEvent\<close>, \<open>OrderWebhookEvent\<close> and
  \<open>CustomerWebhookEvent\<close> are the same four fields and differ in the type of \<open>Data\<close>
  only: one record with that type as parameter. The functions on product and order
  events do not look into \<open>Product\<close> or \<open>Order\<close>, whose types stay parameters.
\<close>

record 'd Envelope =
  Event :: string
  Merchant :: go_int
  Data :: 'd
  CreatedAt :: time

type_synonym WebhookEvent = "go_map Envelope"

text \<open>\<open>err.Error()\<close>.\<close>

fun ErrorString :: "error \<Rightarrow> string" where
  "ErrorString (Errorf msg) = msg"
| "ErrorString (Wrapf msg cause) = msg @ ErrorString cause"

text \<open>
  \<open>ParseWebhook\<close>. \<open>json.Unmarshal\<close> of the payload into a fresh \<open>WebhookEvent\<close> is the
  library's work and the first argument.
\<close>

definition ParseWebhook ::
  "(byte list \<Rightarrow> error + WebhookEvent) \<Rightarrow> byte list \<Rightarrow> error + WebhookEvent" where
  "ParseWebhook json_Unmarshal payload =
     (case json_Unmarshal payload of
        Inl err \<Rightarrow> Inl (Wrapf ''failed to parse webhook: '' err)
      | Inr event \<Rightarrow> Inr event)"

text \<open>
  The conversions of a generic event to a typed one. \<open>json.Marshal\<close> of the payload map
  and \<open>json.Unmarshal\<close> into a fresh variable of the target type are arguments.
\<close>

definition convertToProductEvent ::
  "(go_map \<Rightarrow> error + byte list) \<Rightarrow> (byte list \<Rightarrow> error + 'p) \<Rightarrow> WebhookEvent \<Rightarrow>
   error + 'p Envelope" where
  "convertToProductEvent json_Marshal json_Unmarshal event =
     (case json_Marshal (Data event) of
        Inl err \<Rightarrow> Inl err
      | Inr data \<Rightarrow>
          (case json_Unmarshal data of
             Inl err \<Rightarrow> Inl err
           | Inr product \<Rightarrow>
               Inr \<lparr>Event = Event event, Merchant = Merchant event, Data = product,
                    CreatedAt = CreatedAt event\<rparr>))"

definition convertToOrderEvent ::
  "(go_map \<Rightarrow> error + byte list) \<Rightarrow> (byte list \<Rightarrow> error + 'o) \<Rightarrow> WebhookEvent \<Rightarrow>
   error + 'o Envelope" where
  "convertToOrderEvent json_Marshal json_Unmarshal event =
     (case json_Marshal (Data event) of
        Inl err \<Rightarrow> Inl err
      | Inr data \<Rightarrow>
          (case json_Unmarshal data of
             Inl err \<Rightarrow> Inl err
           | Inr order \<Rightarrow>
               Inr \<lparr>Event = Event event, Merchant = Merchant event, Data = order,
                    CreatedAt = CreatedAt event\<rparr>))"

text \<open>
  \<open>convertToCustomerEvent\<close> (webhook.go, lines 281 to 298) has no definition here. It
  declares \<open>var customer Customer\<close> and then calls \<open>json.Unmarshal(data, &order)\<close>;
  \<open>order\<close> is declared neither in that function nor in the package (its only
  declaration is local to \<open>convertToOrderEvent\<close>), so the function is not a Go function
  with a result that could be stated: the compiler refuses it. \<open>OnCustomerCreated\<close>,
  which calls it, is left out with it.
\<close>

text \<open>
  A \<open>WebhookHandler\<close> is modelled by the error it returns for an event (\<open>None\<close> is nil).
  The handler table is a map from event type to handler.
\<close>

type_synonym WebhookHandler = "WebhookEvent \<Rightarrow> error option"

record WebhookHandlerFunc =
  Secret :: string
  Handlers :: "string \<rightharpoonup> WebhookHandler"

definition NewWebhookHandler :: "string \<Rightarrow> WebhookHandlerFunc" where
  "NewWebhookHandler secret = \<lparr>Secret = secret, Handlers = Map.empty\<rparr>"

definition On :: "WebhookHandlerFunc \<Rightarrow> string \<Rightarrow> WebhookHandler \<Rightarrow> WebhookHandlerFunc" where
  "On h eventType handler = h\<lparr>Handlers := (Handlers h)(eventType \<mapsto> handler)\<rparr>"

definition OnProductCreated ::
  "(go_map \<Rightarrow> error + byte list) \<Rightarrow> (byte list \<Rightarrow> error + 'p) \<Rightarrow>
   WebhookHandlerFunc \<Rightarrow> ('p Envelope \<Rightarrow> error option) \<Rightarrow> WebhookHandlerFunc" where
  "OnProductCreated json_Marshal json_Unmarshal h handler =
     On h ''product.created''
       (\<lambda>event. case convertToProductEvent json_Marshal json_Unmarshal event of
                  Inl err \<Rightarrow> Some err
                | Inr productEvent \<Rightarrow> handler productEvent)"

definition OnOrderCreated ::
  "(go_map \<Rightarrow> error + byte list) \<Rightarrow> (byte list \<Rightarrow> error + 'o) \<Rightarrow>
   WebhookHandlerFunc \<Rightarrow> ('o Envelope \<Rightarrow> error option) \<Rightarrow> WebhookHandlerFunc" where
  "OnOrderCreated json_Marshal json_Unmarshal h handler =
     On h ''order.created''
       (\<lambda>event. case convertToOrderEvent json_Marshal json_Unmarshal event of
                  Inl err \<Rightarrow> Some err
                | Inr orderEvent \<Rightarrow> handler orderEvent)"

text \<open>
  What \<open>ServeHTTP\<close> writes to the \<open>http.ResponseWriter\<close>: \<open>http.Error\<close> writes the status
  and the message followed by a newline, \<open>w.WriteHeader\<close> the status alone.
\<close>

record Response =
  StatusCode :: nat
  Written :: string

definition http_Error :: "string \<Rightarrow> nat \<Rightarrow> Response" where
  "http_Error msg code = \<lparr>StatusCode = code, Written = msg @ [CHR 0x0A]\<rparr>"

definition WriteHeader :: "nat \<Rightarrow> Response" where
  "WriteHeader code = \<lparr>StatusCode = code, Written = []\<rparr>"

text \<open>
  \<open>WebhookHandlerFunc.ServeHTTP\<close>. The result is the response and the events with which
  a handler of the table was called.
\<close>

definition ServeHTTP ::
  "(byte list \<Rightarrow> error + WebhookEvent) \<Rightarrow> WebhookHandlerFunc \<Rightarrow> Request \<Rightarrow>
   Response \<times> WebhookEvent list" where
  "ServeHTTP json_Unmarshal h r =
     (if Method r \<noteq> ''POST'' then (http_Error ''Method not allowed'' 405, [])
      else
        (case Body r of
           Inl err \<Rightarrow> (http_Error ''Failed to read request body'' 400, [])
         | Inr body \<Rightarrow>
             if Secret h \<noteq> [] \<and>
                \<not> VerifyWebhookSignature (Secret h) body
                    (let signature = Header_Get r ''X-Signature''
                     in if signature = [] then Header_Get r ''Authorization'' else signature)
             then (http_Error ''Invalid signature'' 401, [])
             else
               (case ParseWebhook json_Unmarshal body of
                  Inl err \<Rightarrow>
                    (http_Error (''Failed to parse webhook: '' @ ErrorString err) 400, [])
                | Inr event \<Rightarrow>
                    (case Handlers h (Event event) of
                       None \<Rightarrow> (WriteHeader 200, [])
                     | Some handler \<Rightarrow>
                         (case handler event of
                            Some err \<Rightarrow>
                              (http_Error (''Handler error: '' @ ErrorString err) 500, [event])
                          | None \<Rightarrow> (WriteHeader 200, [event]))))))"


section \<open>Pagination cursors\<close>

lemma sint_succ_below:
  fixes a b :: go_int
  assumes "sint a < sint b"
  shows "sint (a + 1) = sint a + 1"
proof -
  have "sint b < 2 ^ 63"
    using sint_lt [of b] by simp
  moreover have "- (2 ^ 63) \<le> sint a"
    using sint_ge [of a] by simp
  ultimately have "signed_take_bit 63 (sint a + 1) = sint a + 1"
    using assms by (intro signed_take_bit_int_eq_self) simp_all
  then show ?thesis
    by (simp add: sint_word_ariths)
qed

lemma sint_pred_above:
  fixes a :: go_int
  assumes "1 < sint a"
  shows "sint (a - 1) = sint a - 1"
proof -
  have "sint a < 2 ^ 63"
    using sint_lt [of a] by simp
  then have "signed_take_bit 63 (sint a - 1) = sint a - 1"
    using assms by (intro signed_take_bit_int_eq_self) simp_all
  then show ?thesis
    by (simp add: sint_word_ariths)
qed

text \<open>
  C10. The four cursor accessors do not fault on a nil \<open>*Pagination\<close>: the two predicates
  are false and the two page numbers are 0. On a non-nil value \<open>NextPage\<close> returns, without
  wrap-around, \<open>CurrentPage + 1\<close> if \<open>CurrentPage < LastPage\<close> and 0 otherwise, and
  \<open>PreviousPage\<close> returns \<open>CurrentPage - 1\<close> if \<open>CurrentPage > 1\<close> and 0 otherwise.
\<close>

theorem pagination_accessors_total:
  "HasNextPage None = False \<and> HasPreviousPage None = False \<and>
   NextPage None = Inr 0 \<and> PreviousPage None = Inr 0 \<and>
   (\<exists>n. NextPage (Some p) = Inr n \<and>
        sint n = (if sint (CurrentPage p) < sint (LastPage p)
                  then sint (CurrentPage p) + 1 else 0)) \<and>
   (\<exists>m. PreviousPage (Some p) = Inr m \<and>
        sint m = (if 1 < sint (CurrentPage p)
                  then sint (CurrentPage p) - 1 else 0))"
  by (simp add: HasNextPage_def HasPreviousPage_def NextPage_def PreviousPage_def
      sint_succ_below sint_pred_above)


section \<open>Token validity\<close>

text \<open>
  C4. \<open>Valid\<close> is true exactly for a token whose access token is non-empty and whose
  expiry is strictly after the current time. So a token whose expiry is in the past is
  not valid, and a token with a non-empty access token and an expiry in the future is.
\<close>

theorem token_valid_iff:
  "(Valid now t \<longleftrightarrow> AccessToken t \<noteq> [] \<and> now < Expiry t) \<and>
   (Expiry t < now \<longrightarrow> \<not> Valid now t) \<and>
   (now < Expiry t \<and> AccessToken t \<noteq> [] \<longrightarrow> Valid now t)"
  by (auto simp add: Valid_def)

theorem token_valid_iff_witness:
  "Expiry \<lparr>AccessToken = ''a'', RefreshToken = ''r'', TokenType = ''bearer'', Expiry = 5\<rparr> < (9::int) \<and>
   \<not> Valid 9 \<lparr>AccessToken = ''a'', RefreshToken = ''r'', TokenType = ''bearer'', Expiry = 5\<rparr> \<and>
   (3::int) < Expiry \<lparr>AccessToken = ''a'', RefreshToken = ''r'', TokenType = ''bearer'', Expiry = 5\<rparr> \<and>
   AccessToken \<lparr>AccessToken = ''a'', RefreshToken = ''r'', TokenType = ''bearer'', Expiry = 5\<rparr> \<noteq> [] \<and>
   Valid 3 \<lparr>AccessToken = ''a'', RefreshToken = ''r'', TokenType = ''bearer'', Expiry = 5\<rparr>"
  using token_valid_iff [of 9 "\<lparr>AccessToken = ''a'', RefreshToken = ''r'', TokenType = ''bearer'', Expiry = 5\<rparr>"]
    token_valid_iff [of 3 "\<lparr>AccessToken = ''a'', RefreshToken = ''r'', TokenType = ''bearer'', Expiry = 5\<rparr>"]
  by simp


section \<open>Refresh on demand\<close>

lemma RefreshTokenIfNeeded_nil:
  "token c = None \<Longrightarrow>
   RefreshTokenIfNeeded rq now c = (Some (Errorf ''no refresh token available''), c, [])"
  by (simp add: RefreshTokenIfNeeded_def)

lemma RefreshTokenIfNeeded_fresh:
  "token c = Some t \<Longrightarrow> now + 5 * Minute < Expiry t \<Longrightarrow>
   RefreshTokenIfNeeded rq now c = (None, c, [])"
  by (simp add: RefreshTokenIfNeeded_def)

lemma RefreshTokenIfNeeded_exhausted:
  "token c = Some t \<Longrightarrow> \<not> now + 5 * Minute < Expiry t \<Longrightarrow> RefreshToken t = [] \<Longrightarrow>
   RefreshTokenIfNeeded rq now c = (Some (Errorf ''no refresh token available''), c, [])"
  by (simp add: RefreshTokenIfNeeded_def)

lemma RefreshTokenIfNeeded_failed:
  "token c = Some t \<Longrightarrow> \<not> now + 5 * Minute < Expiry t \<Longrightarrow> RefreshToken t \<noteq> [] \<Longrightarrow>
   OAuthConfig_RefreshToken rq (oauthConfig c) (RefreshToken t) = Inl e \<Longrightarrow>
   RefreshTokenIfNeeded rq now c =
     (Some (Wrapf ''failed to refresh token: '' e), c, [RefreshToken t])"
  by (simp add: RefreshTokenIfNeeded_def)

lemma RefreshTokenIfNeeded_refreshed:
  "token c = Some t \<Longrightarrow> \<not> now + 5 * Minute < Expiry t \<Longrightarrow> RefreshToken t \<noteq> [] \<Longrightarrow>
   OAuthConfig_RefreshToken rq (oauthConfig c) (RefreshToken t) = Inr newToken \<Longrightarrow>
   RefreshTokenIfNeeded rq now c = (None, c\<lparr>token := Some newToken\<rparr>, [RefreshToken t])"
  by (simp add: RefreshTokenIfNeeded_def)

text \<open>
  C5. Call the stored token stale when it is missing, expired (\<open>Expiry \<le> now\<close>) or within
  the five minutes before its expiry. \<open>RefreshTokenIfNeeded\<close> calls the refresh operation
  exactly when the token is stale and carries a refresh token, and then once, with that
  refresh token; its result is then decided by what \<open>oauthConfig.RefreshToken\<close> returns
  for that refresh token: the wrapped error with the client as it was, or nil with the
  returned token stored. When the token is stale and there is no refresh token (or no
  token) it returns the error "no refresh token available", makes no call and leaves the
  client as it was. When the token is not stale it returns nil, makes no call and leaves
  the client as it was.
\<close>

theorem refresh_invoked_iff_stale:
  fixes rq :: "url_Values \<Rightarrow> error + Token" and now :: time and c :: Client
  defines "stale \<equiv> (case token c of
                       None \<Rightarrow> True
                     | Some t \<Rightarrow> Expiry t \<le> now \<or> (now < Expiry t \<and> Expiry t \<le> now + 5 * Minute))"
    and "exhausted \<equiv> (case token c of None \<Rightarrow> True | Some t \<Rightarrow> RefreshToken t = [])"
  shows "(snd (snd (RefreshTokenIfNeeded rq now c)) \<noteq> [] \<longleftrightarrow> stale \<and> \<not> exhausted) \<and>
         (stale \<and> \<not> exhausted \<longrightarrow>
            (\<exists>t. token c = Some t \<and>
                 snd (snd (RefreshTokenIfNeeded rq now c)) = [RefreshToken t] \<and>
                 RefreshTokenIfNeeded rq now c =
                   (case OAuthConfig_RefreshToken rq (oauthConfig c) (RefreshToken t) of
                      Inl err \<Rightarrow>
                        (Some (Wrapf ''failed to refresh token: '' err), c, [RefreshToken t])
                    | Inr newToken \<Rightarrow>
                        (None, c\<lparr>token := Some newToken\<rparr>, [RefreshToken t])) \<and>
                 OAuthConfig_RefreshToken rq (oauthConfig c) (RefreshToken t) =
                   rq [(''grant_type'', [''refresh_token'']),
                       (''client_id'', [ClientID (oauthConfig c)]),
                       (''client_secret'', [ClientSecret (oauthConfig c)]),
                       (''refresh_token'', [RefreshToken t])])) \<and>
         (stale \<and> exhausted \<longrightarrow>
            RefreshTokenIfNeeded rq now c = (Some (Errorf ''no refresh token available''), c, [])) \<and>
         (\<not> stale \<longrightarrow> RefreshTokenIfNeeded rq now c = (None, c, []))"
proof (cases "token c")
  case None
  then show ?thesis
    by (simp add: stale_def exhausted_def RefreshTokenIfNeeded_nil)
next
  case (Some t)
  have margin: "(Expiry t \<le> now \<or> (now < Expiry t \<and> Expiry t \<le> now + 5 * Minute))
                  \<longleftrightarrow> \<not> now + 5 * Minute < Expiry t"
    by (auto simp add: Minute_def)
  have form: "OAuthConfig_RefreshToken rq (oauthConfig c) (RefreshToken t) =
                rq [(''grant_type'', [''refresh_token'']),
                    (''client_id'', [ClientID (oauthConfig c)]),
                    (''client_secret'', [ClientSecret (oauthConfig c)]),
                    (''refresh_token'', [RefreshToken t])]"
    by (simp add: OAuthConfig_RefreshToken_def)
  show ?thesis
  proof (cases "now + 5 * Minute < Expiry t")
    case True
    with Some margin show ?thesis
      by (simp add: stale_def exhausted_def RefreshTokenIfNeeded_fresh)
  next
    case False
    show ?thesis
    proof (cases "RefreshToken t = []")
      case True
      with Some False margin show ?thesis
        by (simp add: stale_def exhausted_def RefreshTokenIfNeeded_exhausted)
    next
      case nonempty: False
      show ?thesis
      proof (cases "OAuthConfig_RefreshToken rq (oauthConfig c) (RefreshToken t)")
        case (Inl e)
        have "RefreshTokenIfNeeded rq now c =
                (Some (Wrapf ''failed to refresh token: '' e), c, [RefreshToken t])"
          using Some False nonempty Inl by (rule RefreshTokenIfNeeded_failed)
        with Some False nonempty margin Inl form show ?thesis
          by (simp add: stale_def exhausted_def)
      next
        case (Inr newToken)
        have "RefreshTokenIfNeeded rq now c =
                (None, c\<lparr>token := Some newToken\<rparr>, [RefreshToken t])"
          using Some False nonempty Inr by (rule RefreshTokenIfNeeded_refreshed)
        with Some False nonempty margin Inr form show ?thesis
          by (simp add: stale_def exhausted_def)
      qed
    qed
  qed
qed

theorem refresh_invoked_iff_stale_witness:
  "RefreshTokenIfNeeded (\<lambda>_. Inl (Errorf ''down'')) 0
      \<lparr>baseURL = ''b'', userAgent = ''g'', oauthConfig = \<lparr>ClientID = ''id'', ClientSecret = ''s'', RedirectURI = ''u'', Scopes = []\<rparr>, token = Some \<lparr>AccessToken = ''a'', RefreshToken = ''r'', TokenType = ''bearer'', Expiry = 100\<rparr>\<rparr>
     = (Some (Wrapf ''failed to refresh token: '' (Errorf ''down'')),
        \<lparr>baseURL = ''b'', userAgent = ''g'', oauthConfig = \<lparr>ClientID = ''id'', ClientSecret = ''s'', RedirectURI = ''u'', Scopes = []\<rparr>, token = Some \<lparr>AccessToken = ''a'', RefreshToken = ''r'', TokenType = ''bearer'', Expiry = 100\<rparr>\<rparr>, [''r'']) \<and>
   RefreshTokenIfNeeded
      (\<lambda>data. if data = [(''grant_type'', [''refresh_token'']), (''client_id'', [''id'']),
                      (''client_secret'', [''s'']), (''refresh_token'', [''r''])]
             then Inr \<lparr>AccessToken = ''n'', RefreshToken = ''r2'', TokenType = ''bearer'', Expiry = 900000000000\<rparr>
             else Inl (Errorf ''invalid_grant'')) 0
      \<lparr>baseURL = ''b'', userAgent = ''g'', oauthConfig = \<lparr>ClientID = ''id'', ClientSecret = ''s'', RedirectURI = ''u'', Scopes = []\<rparr>, token = Some \<lparr>AccessToken = ''a'', RefreshToken = ''r'', TokenType = ''bearer'', Expiry = 100\<rparr>\<rparr>
     = (None, \<lparr>baseURL = ''b'', userAgent = ''g'', oauthConfig = \<lparr>ClientID = ''id'', ClientSecret = ''s'', RedirectURI = ''u'', Scopes = []\<rparr>, token = Some \<lparr>AccessToken = ''n'', RefreshToken = ''r2'', TokenType = ''bearer'', Expiry = 900000000000\<rparr>\<rparr>, [''r'']) \<and>
   RefreshTokenIfNeeded (\<lambda>_. Inl (Errorf ''down'')) 0
      \<lparr>baseURL = ''b'', userAgent = ''g'', oauthConfig = \<lparr>ClientID = ''id'', ClientSecret = ''s'', RedirectURI = ''u'', Scopes = []\<rparr>, token = Some \<lparr>AccessToken = ''a'', RefreshToken = '''', TokenType = ''bearer'', Expiry = 100\<rparr>\<rparr>
     = (Some (Errorf ''no refresh token available''),
        \<lparr>baseURL = ''b'', userAgent = ''g'', oauthConfig = \<lparr>ClientID = ''id'', ClientSecret = ''s'', RedirectURI = ''u'', Scopes = []\<rparr>, token = Some \<lparr>AccessToken = ''a'', RefreshToken = '''', TokenType = ''bearer'', Expiry = 100\<rparr>\<rparr>, []) \<and>
   RefreshTokenIfNeeded (\<lambda>_. Inl (Errorf ''down'')) 0
      \<lparr>baseURL = ''b'', userAgent = ''g'', oauthConfig = \<lparr>ClientID = ''id'', ClientSecret = ''s'', RedirectURI = ''u'', Scopes = []\<rparr>, token = None\<rparr>
     = (Some (Errorf ''no refresh token available''),
        \<lparr>baseURL = ''b'', userAgent = ''g'', oauthConfig = \<lparr>ClientID = ''id'', ClientSecret = ''s'', RedirectURI = ''u'', Scopes = []\<rparr>, token = None\<rparr>, []) \<and>
   RefreshTokenIfNeeded (\<lambda>_. Inl (Errorf ''down'')) 0
      \<lparr>baseURL = ''b'', userAgent = ''g'', oauthConfig = \<lparr>ClientID = ''id'', ClientSecret = ''s'', RedirectURI = ''u'', Scopes = []\<rparr>, token = Some \<lparr>AccessToken = ''a'', RefreshToken = ''r'', TokenType = ''bearer'', Expiry = 400000000000\<rparr>\<rparr>
     = (None, \<lparr>baseURL = ''b'', userAgent = ''g'', oauthConfig = \<lparr>ClientID = ''id'', ClientSecret = ''s'', RedirectURI = ''u'', Scopes = []\<rparr>, token = Some \<lparr>AccessToken = ''a'', RefreshToken = ''r'', TokenType = ''bearer'', Expiry = 400000000000\<rparr>\<rparr>, [])"
  using
    refresh_invoked_iff_stale [where rq = "(\<lambda>_. Inl (Errorf ''down''))" and now = 0 and c = "\<lparr>baseURL = ''b'', userAgent = ''g'', oauthConfig = \<lparr>ClientID = ''id'', ClientSecret = ''s'', RedirectURI = ''u'', Scopes = []\<rparr>, token = Some \<lparr>AccessToken = ''a'', RefreshToken = ''r'', TokenType = ''bearer'', Expiry = 100\<rparr>\<rparr>"]
    refresh_invoked_iff_stale [where rq = "(\<lambda>data. if data = [(''grant_type'', [''refresh_token'']), (''client_id'', [''id'']),
                      (''client_secret'', [''s'']), (''refresh_token'', [''r''])]
             then Inr \<lparr>AccessToken = ''n'', RefreshToken = ''r2'', TokenType = ''bearer'', Expiry = 900000000000\<rparr>
             else Inl (Errorf ''invalid_grant''))" and now = 0 and c = "\<lparr>baseURL = ''b'', userAgent = ''g'', oauthConfig = \<lparr>ClientID = ''id'', ClientSecret = ''s'', RedirectURI = ''u'', Scopes = []\<rparr>, token = Some \<lparr>AccessToken = ''a'', RefreshToken = ''r'', TokenType = ''bearer'', Expiry = 100\<rparr>\<rparr>"]
    refresh_invoked_iff_stale [where rq = "(\<lambda>_. Inl (Errorf ''down''))" and now = 0 and c = "\<lparr>baseURL = ''b'', userAgent = ''g'', oauthConfig = \<lparr>ClientID = ''id'', ClientSecret = ''s'', RedirectURI = ''u'', Scopes = []\<rparr>, token = Some \<lparr>AccessToken = ''a'', RefreshToken = '''', TokenType = ''bearer'', Expiry = 100\<rparr>\<rparr>"]
    refresh_invoked_iff_stale [where rq = "(\<lambda>_. Inl (Errorf ''down''))" and now = 0 and c = "\<lparr>baseURL = ''b'', userAgent = ''g'', oauthConfig = \<lparr>ClientID = ''id'', ClientSecret = ''s'', RedirectURI = ''u'', Scopes = []\<rparr>, token = None\<rparr>"]
    refresh_invoked_iff_stale [where rq = "(\<lambda>_. Inl (Errorf ''down''))" and now = 0 and c = "\<lparr>baseURL = ''b'', userAgent = ''g'', oauthConfig = \<lparr>ClientID = ''id'', ClientSecret = ''s'', RedirectURI = ''u'', Scopes = []\<rparr>, token = Some \<lparr>AccessToken = ''a'', RefreshToken = ''r'', TokenType = ''bearer'', Expiry = 400000000000\<rparr>\<rparr>"]
  by (simp add: Minute_def)


section \<open>Outcome of the refresh call\<close>

text \<open>
  C6. When the stored token is stale and has a refresh token, the refresh call is made.
  If it fails with \<open>e\<close>, \<open>RefreshTokenIfNeeded\<close> returns \<open>e\<close> wrapped in "failed to refresh
  token" and the client, with its stored token, is exactly as before the call. If it
  succeeds with \<open>newToken\<close>, nil is returned and the stored token is \<open>newToken\<close>, the whole
  value.
\<close>

theorem refresh_failure_keeps_token:
  assumes "token c = Some t" and "\<not> now + 5 * Minute < Expiry t" and "RefreshToken t \<noteq> []"
  shows "(OAuthConfig_RefreshToken rq (oauthConfig c) (RefreshToken t) = Inl e \<longrightarrow>
            RefreshTokenIfNeeded rq now c =
              (Some (Wrapf ''failed to refresh token: '' e), c, [RefreshToken t])) \<and>
         (OAuthConfig_RefreshToken rq (oauthConfig c) (RefreshToken t) = Inr newToken \<longrightarrow>
            RefreshTokenIfNeeded rq now c = (None, c\<lparr>token := Some newToken\<rparr>, [RefreshToken t]) \<and>
            token (fst (snd (RefreshTokenIfNeeded rq now c))) = Some newToken)"
  using assms by (simp add: RefreshTokenIfNeeded_failed RefreshTokenIfNeeded_refreshed)

theorem refresh_failure_keeps_token_witness:
  "RefreshTokenIfNeeded (\<lambda>_. Inl (Errorf ''down'')) 0
      \<lparr>baseURL = ''b'', userAgent = ''g'', oauthConfig = \<lparr>ClientID = ''id'', ClientSecret = ''s'', RedirectURI = ''u'', Scopes = []\<rparr>, token = Some \<lparr>AccessToken = ''a'', RefreshToken = ''r'', TokenType = ''bearer'', Expiry = 100\<rparr>\<rparr>
     = (Some (Wrapf ''failed to refresh token: '' (Errorf ''down'')),
        \<lparr>baseURL = ''b'', userAgent = ''g'', oauthConfig = \<lparr>ClientID = ''id'', ClientSecret = ''s'', RedirectURI = ''u'', Scopes = []\<rparr>, token = Some \<lparr>AccessToken = ''a'', RefreshToken = ''r'', TokenType = ''bearer'', Expiry = 100\<rparr>\<rparr>, [''r'']) \<and>
   token (fst (snd (RefreshTokenIfNeeded (\<lambda>_. Inr \<lparr>AccessToken = ''n'', RefreshToken = ''r2'', TokenType = ''bearer'', Expiry = 900000000000\<rparr>) 0
      \<lparr>baseURL = ''b'', userAgent = ''g'', oauthConfig = \<lparr>ClientID = ''id'', ClientSecret = ''s'', RedirectURI = ''u'', Scopes = []\<rparr>, token = Some \<lparr>AccessToken = ''a'', RefreshToken = ''r'', TokenType = ''bearer'', Expiry = 100\<rparr>\<rparr>)))
     = Some \<lparr>AccessToken = ''n'', RefreshToken = ''r2'', TokenType = ''bearer'', Expiry = 900000000000\<rparr>"
  using
    refresh_failure_keeps_token [where rq = "(\<lambda>_. Inl (Errorf ''down''))" and now = 0
      and c = "\<lparr>baseURL = ''b'', userAgent = ''g'', oauthConfig = \<lparr>ClientID = ''id'', ClientSecret = ''s'', RedirectURI = ''u'', Scopes = []\<rparr>, token = Some \<lparr>AccessToken = ''a'', RefreshToken = ''r'', TokenType = ''bearer'', Expiry = 100\<rparr>\<rparr>"
      and t = "\<lparr>AccessToken = ''a'', RefreshToken = ''r'', TokenType = ''bearer'', Expiry = 100\<rparr>" and e = "Errorf ''down''"
      and newToken = "\<lparr>AccessToken = ''n'', RefreshToken = ''r2'', TokenType = ''bearer'', Expiry = 900000000000\<rparr>"]
    refresh_failure_keeps_token [where rq = "(\<lambda>_. Inr \<lparr>AccessToken = ''n'', RefreshToken = ''r2'', TokenType = ''bearer'', Expiry = 900000000000\<rparr>)" and now = 0
      and c = "\<lparr>baseURL = ''b'', userAgent = ''g'', oauthConfig = \<lparr>ClientID = ''id'', ClientSecret = ''s'', RedirectURI = ''u'', Scopes = []\<rparr>, token = Some \<lparr>AccessToken = ''a'', RefreshToken = ''r'', TokenType = ''bearer'', Expiry = 100\<rparr>\<rparr>"
      and t = "\<lparr>AccessToken = ''a'', RefreshToken = ''r'', TokenType = ''bearer'', Expiry = 100\<rparr>" and e = "Errorf ''down''"
      and newToken = "\<lparr>AccessToken = ''n'', RefreshToken = ''r2'', TokenType = ''bearer'', Expiry = 900000000000\<rparr>"]
  by (simp add: Minute_def OAuthConfig_RefreshToken_def)


section \<open>The credential carried by an outbound request\<close>

text \<open>
  Every service method builds its request with \<open>newRequest\<close> and passes the result to
  \<open>do\<close>. \<open>newRequest\<close> attaches the bearer header from the token stored at that moment;
  \<open>do\<close> then runs the refresh step and rewrites the header only when that step returned
  an error. So whenever the refresh step returns nil, the request goes out as it was
  prepared.
\<close>

lemma do_sends_prepared_request:
  "RefreshTokenIfNeeded rq now c = (None, c', calls) \<Longrightarrow>
   do rq now roundTrip c req = (roundTrip req, c', calls, req)"
  by (simp add: do_def)

text \<open>
  C3 at a concrete call. The stored token \<open>old\<close> expires in one minute, the refresh call
  succeeds and stores the token \<open>new\<close>; the request handed to the transport still carries
  \<open>Bearer old\<close>.
\<close>

theorem do_sends_stale_credential_after_refresh:
  "(case newRequest (\<lambda>_::unit. Inr [])
           (\<lambda>m u b. Inr \<lparr>Method = m, URL = u, Header = (\<lambda>_. []), Body = Inr []\<rparr>)
           \<lparr>baseURL = ''https://api.salla.dev/admin/v2'', userAgent = ''gosalla/1.0'', oauthConfig = \<lparr>ClientID = ''id'', ClientSecret = ''s'', RedirectURI = ''u'', Scopes = []\<rparr>, token = Some \<lparr>AccessToken = ''old'', RefreshToken = ''r1'', TokenType = ''bearer'', Expiry = 60 * 1000000000\<rparr>\<rparr>
           ''GET'' ''/brands'' None of
      Inl _ \<Rightarrow> False
    | Inr req \<Rightarrow>
        (case do (\<lambda>_. Inr \<lparr>AccessToken = ''new'', RefreshToken = ''r2'', TokenType = ''bearer'', Expiry = 3600 * 1000000000\<rparr>) 0 (\<lambda>_. None)
                \<lparr>baseURL = ''https://api.salla.dev/admin/v2'', userAgent = ''gosalla/1.0'', oauthConfig = \<lparr>ClientID = ''id'', ClientSecret = ''s'', RedirectURI = ''u'', Scopes = []\<rparr>, token = Some \<lparr>AccessToken = ''old'', RefreshToken = ''r1'', TokenType = ''bearer'', Expiry = 60 * 1000000000\<rparr>\<rparr>
                req of
           (err, c', calls, sent) \<Rightarrow>
             err = None \<and> calls = [''r1''] \<and>
             token c' = Some \<lparr>AccessToken = ''new'', RefreshToken = ''r2'', TokenType = ''bearer'', Expiry = 3600 * 1000000000\<rparr> \<and>
             Header_Get sent ''Authorization'' = ''Bearer old''))"
  by (simp add: newRequest_def do_def RefreshTokenIfNeeded_def OAuthConfig_RefreshToken_def
      Header_Set_def Header_Get_def Minute_def)


section \<open>Signature verification\<close>

text \<open>The SHA-256 of the empty message, as FIPS 180-4 gives it.\<close>

lemma sha256_empty_vector:
  "EncodeToString (sha256 []) =
     ''e3b0c44298fc1c149afbf4c8996fb92427ae41e4649b934ca495991b7852b855''"
  by code_simp

lemma xor_zero_iff:
  fixes a b :: byte
  shows "a XOR b = 0 \<longleftrightarrow> a = b"
proof
  assume "a XOR b = 0"
  then have "(a XOR b) XOR b = b" by simp
  then show "a = b" by (simp add: xor.assoc)
qed simp

lemma fold_or_zero:
  fixes v :: byte
  assumes "length x = length y"
  shows "foldl (\<lambda>v (a, b). v OR (a XOR b)) v (zip x y) = 0 \<longleftrightarrow> v = 0 \<and> x = y"
  using assms
proof (induction x y arbitrary: v rule: list_induct2)
  case Nil
  then show ?case by simp
next
  case (Cons a x b y)
  have "(v OR (a XOR b)) = 0 \<longleftrightarrow> v = 0 \<and> a = b"
    by (simp add: or_eq_0_iff xor_zero_iff)
  with Cons.IH [of "v OR (a XOR b)"] show ?case
    by auto
qed

lemma ConstantTimeCompare_iff: "ConstantTimeCompare x y = 1 \<longleftrightarrow> x = y"
  by (auto simp add: ConstantTimeCompare_def fold_or_zero)

lemma byte_of_char_inj:
  assumes "(of_nat (of_char c) :: byte) = of_nat (of_char d)"
  shows "c = d"
proof -
  from assms have "take_bit 8 (of_char c :: nat) = take_bit 8 (of_char d :: nat)"
    by (simp add: word_of_nat_eq_iff)
  then have "(of_char c :: nat) = of_char d"
    by (simp add: take_bit_eq_mod)
  then show "c = d" by simp
qed

lemma bytes_of_inj: "bytes_of s = bytes_of t \<longleftrightarrow> s = t"
proof -
  have "inj (\<lambda>c. of_nat (of_char c) :: byte)"
    by (rule injI) (rule byte_of_char_inj)
  then show ?thesis
    unfolding bytes_of_def by (rule inj_map_eq_map)
qed

lemma length_EncodeToString: "length (EncodeToString bs) = 2 * length bs"
  by (induction bs) (simp_all add: EncodeToString_def)

lemma VerifyWebhookSignature_iff:
  "VerifyWebhookSignature secret payload signature \<longleftrightarrow>
   signature = EncodeToString (hmac_sha256 (bytes_of secret) payload)"
  by (simp only: VerifyWebhookSignature_def Let_def hmac_Equal_def ConstantTimeCompare_iff
      bytes_of_inj)

lemma ServeHTTP_open_mode:
  "Secret h = [] \<Longrightarrow>
   ServeHTTP u h r =
     (if Method r \<noteq> ''POST'' then (http_Error ''Method not allowed'' 405, [])
      else
        (case Body r of
           Inl err \<Rightarrow> (http_Error ''Failed to read request body'' 400, [])
         | Inr body \<Rightarrow>
             (case ParseWebhook u body of
                Inl err \<Rightarrow>
                  (http_Error (''Failed to parse webhook: '' @ ErrorString err) 400, [])
              | Inr event \<Rightarrow>
                  (case Handlers h (Event event) of
                     None \<Rightarrow> (WriteHeader 200, [])
                   | Some handler \<Rightarrow>
                       (case handler event of
                          Some err \<Rightarrow>
                            (http_Error (''Handler error: '' @ ErrorString err) 500, [event])
                        | None \<Rightarrow> (WriteHeader 200, [event]))))))"
  by (simp add: ServeHTTP_def split: sum.splits)

text \<open>
  C1, as stated, at the empty secret: \<open>VerifyWebhookSignature("", [], "x")\<close> is false,
  since a hex digest has an even number of characters.
\<close>

theorem verify_empty_secret_counterexample:
  "\<not> VerifyWebhookSignature [] [] ''x''"
proof
  assume "VerifyWebhookSignature [] [] ''x''"
  then have "length ''x'' = length (EncodeToString (hmac_sha256 (bytes_of []) []))"
    by (simp only: VerifyWebhookSignature_iff)
  then show False
    by (simp add: length_EncodeToString)
qed

text \<open>
  C1, amended. For every secret, the empty one included, \<open>VerifyWebhookSignature\<close> is true
  exactly for the lower-case hex HMAC-SHA256 of the body under the secret. The open mode
  is in \<open>ServeHTTP\<close>: a handler whose \<open>Secret\<close> is empty does not consult the signature
  headers, so its answer is the same whatever they hold, and it never answers 401.
\<close>

theorem verify_signature_exact:
  "(VerifyWebhookSignature secret payload signature \<longleftrightarrow>
      signature = EncodeToString (hmac_sha256 (bytes_of secret) payload)) \<and>
   ServeHTTP u (h\<lparr>Secret := []\<rparr>) (r\<lparr>Header := hdr\<rparr>) = ServeHTTP u (h\<lparr>Secret := []\<rparr>) r \<and>
   StatusCode (fst (ServeHTTP u (h\<lparr>Secret := []\<rparr>) r)) \<noteq> 401"
proof (intro conjI)
  show "VerifyWebhookSignature secret payload signature \<longleftrightarrow>
          signature = EncodeToString (hmac_sha256 (bytes_of secret) payload)"
    by (rule VerifyWebhookSignature_iff)
  show "ServeHTTP u (h\<lparr>Secret := []\<rparr>) (r\<lparr>Header := hdr\<rparr>) = ServeHTTP u (h\<lparr>Secret := []\<rparr>) r"
    by (simp add: ServeHTTP_open_mode)
  show "StatusCode (fst (ServeHTTP u (h\<lparr>Secret := []\<rparr>) r)) \<noteq> 401"
    by (simp add: ServeHTTP_open_mode http_Error_def WriteHeader_def
        split: sum.splits option.splits)
qed


section \<open>Dispatch\<close>

text \<open>
  A request reaches the handler table when it is a POST whose body could be read, whose
  signature was accepted (or no secret is configured) and whose body parsed into an
  event. From there the answer depends on the table and the handler alone.
\<close>

lemma ServeHTTP_dispatch:
  assumes "Method r = ''POST''" and "Body r = Inr body"
    and "Secret h = [] \<or>
         VerifyWebhookSignature (Secret h) body
           (if Header_Get r ''X-Signature'' = [] then Header_Get r ''Authorization''
            else Header_Get r ''X-Signature'')"
    and "u body = Inr event"
  shows "ServeHTTP u h r =
           (case Handlers h (Event event) of
              None \<Rightarrow> (WriteHeader 200, [])
            | Some handler \<Rightarrow>
                (case handler event of
                   Some err \<Rightarrow> (http_Error (''Handler error: '' @ ErrorString err) 500, [event])
                 | None \<Rightarrow> (WriteHeader 200, [event])))"
  using assms by (auto simp add: ServeHTTP_def ParseWebhook_def Let_def)

text \<open>
  C8. A request that reaches the handler table with an event type for which no handler is
  registered is answered with status 200 and an empty body, and no handler is called.
\<close>

theorem unregistered_event_is_accepted:
  assumes "Method r = ''POST''" and "Body r = Inr body"
    and "Secret h = [] \<or>
         VerifyWebhookSignature (Secret h) body
           (if Header_Get r ''X-Signature'' = [] then Header_Get r ''Authorization''
            else Header_Get r ''X-Signature'')"
    and "u body = Inr event"
    and "Handlers h (Event event) = None"
  shows "ServeHTTP u h r = (\<lparr>StatusCode = 200, Written = []\<rparr>, [])"
  using assms ServeHTTP_dispatch [where r = r and body = body and h = h and u = u and event = event]
  by (simp add: WriteHeader_def)

theorem unregistered_event_is_accepted_witness:
  "ServeHTTP
     (\<lambda>_. Inr \<lparr>Event = ''cart.abandoned'', Merchant = 12345, Data = None, CreatedAt = 0\<rparr>)
     (On (NewWebhookHandler []) ''order.created'' (\<lambda>_. Some (Errorf ''boom'')))
     \<lparr>Method = ''POST'', URL = ''/webhook'', Header = (\<lambda>_. []), Body = Inr []\<rparr>
   = (\<lparr>StatusCode = 200, Written = []\<rparr>, [])"
  using unregistered_event_is_accepted
    [where u = "\<lambda>_. Inr \<lparr>Event = ''cart.abandoned'', Merchant = 12345, Data = None, CreatedAt = 0\<rparr>"
      and h = "On (NewWebhookHandler []) ''order.created'' (\<lambda>_. Some (Errorf ''boom''))"
      and r = "\<lparr>Method = ''POST'', URL = ''/webhook'', Header = (\<lambda>_. []), Body = Inr []\<rparr>"
      and body = "[]"
      and event = "\<lparr>Event = ''cart.abandoned'', Merchant = 12345, Data = None, CreatedAt = 0\<rparr>"]
  by (simp add: On_def NewWebhookHandler_def)

text \<open>
  C9. For a request that reaches the handler table: when the registered handler returns an
  error, the answer is status 500 with the error's message in the body, and \<open>ServeHTTP\<close>
  returns normally; when the handler returns nil the answer is 200; when no handler is
  registered the answer is 200.
\<close>

theorem handler_failure_is_500:
  assumes "Method r = ''POST''" and "Body r = Inr body"
    and "Secret h = [] \<or>
         VerifyWebhookSignature (Secret h) body
           (if Header_Get r ''X-Signature'' = [] then Header_Get r ''Authorization''
            else Header_Get r ''X-Signature'')"
    and "u body = Inr event"
  shows "(\<forall>handler err. Handlers h (Event event) = Some handler \<and> handler event = Some err \<longrightarrow>
            ServeHTTP u h r =
              (\<lparr>StatusCode = 500, Written = ''Handler error: '' @ ErrorString err @ [CHR 0x0A]\<rparr>,
               [event])) \<and>
         (\<forall>handler. Handlers h (Event event) = Some handler \<and> handler event = None \<longrightarrow>
            ServeHTTP u h r = (\<lparr>StatusCode = 200, Written = []\<rparr>, [event])) \<and>
         (Handlers h (Event event) = None \<longrightarrow>
            ServeHTTP u h r = (\<lparr>StatusCode = 200, Written = []\<rparr>, []))"
  using assms ServeHTTP_dispatch [where r = r and body = body and h = h and u = u and event = event]
  by (simp add: WriteHeader_def http_Error_def)

theorem handler_failure_is_500_witness:
  "ServeHTTP
     (\<lambda>_. Inr \<lparr>Event = ''order.created'', Merchant = 12345, Data = None, CreatedAt = 0\<rparr>)
     (On (NewWebhookHandler []) ''order.created'' (\<lambda>_. Some (Errorf ''boom'')))
     \<lparr>Method = ''POST'', URL = ''/webhook'', Header = (\<lambda>_. []), Body = Inr []\<rparr>
   = (\<lparr>StatusCode = 500, Written = ''Handler error: boom'' @ [CHR 0x0A]\<rparr>,
      [\<lparr>Event = ''order.created'', Merchant = 12345, Data = None, CreatedAt = 0\<rparr>]) \<and>
   ServeHTTP
     (\<lambda>_. Inr \<lparr>Event = ''order.created'', Merchant = 12345, Data = None, CreatedAt = 0\<rparr>)
     (On (NewWebhookHandler []) ''order.created'' (\<lambda>_. None))
     \<lparr>Method = ''POST'', URL = ''/webhook'', Header = (\<lambda>_. []), Body = Inr []\<rparr>
   = (\<lparr>StatusCode = 200, Written = []\<rparr>,
      [\<lparr>Event = ''order.created'', Merchant = 12345, Data = None, CreatedAt = 0\<rparr>]) \<and>
   ServeHTTP
     (\<lambda>_. Inr \<lparr>Event = ''order.created'', Merchant = 12345, Data = None, CreatedAt = 0\<rparr>)
     (NewWebhookHandler [])
     \<lparr>Method = ''POST'', URL = ''/webhook'', Header = (\<lambda>_. []), Body = Inr []\<rparr>
   = (\<lparr>StatusCode = 200, Written = []\<rparr>, [])"
  using
    handler_failure_is_500
    [where u = "\<lambda>_. Inr \<lparr>Event = ''order.created'', Merchant = 12345, Data = None, CreatedAt = 0\<rparr>"
      and h = "On (NewWebhookHandler []) ''order.created'' (\<lambda>_. Some (Errorf ''boom''))"
      and r = "\<lparr>Method = ''POST'', URL = ''/webhook'', Header = (\<lambda>_. []), Body = Inr []\<rparr>"
      and body = "[]"
      and event = "\<lparr>Event = ''order.created'', Merchant = 12345, Data = None, CreatedAt = 0\<rparr>"]
    handler_failure_is_500
    [where u = "\<lambda>_. Inr \<lparr>Event = ''order.created'', Merchant = 12345, Data = None, CreatedAt = 0\<rparr>"
      and h = "On (NewWebhookHandler []) ''order.created'' (\<lambda>_. None)"
      and r = "\<lparr>Method = ''POST'', URL = ''/webhook'', Header = (\<lambda>_. []), Body = Inr []\<rparr>"
      and body = "[]"
      and event = "\<lparr>Event = ''order.created'', Merchant = 12345, Data = None, CreatedAt = 0\<rparr>"]
    handler_failure_is_500
    [where u = "\<lambda>_. Inr \<lparr>Event = ''order.created'', Merchant = 12345, Data = None, CreatedAt = 0\<rparr>"
      and h = "NewWebhookHandler []"
      and r = "\<lparr>Method = ''POST'', URL = ''/webhook'', Header = (\<lambda>_. []), Body = Inr []\<rparr>"
      and body = "[]"
      and event = "\<lparr>Event = ''order.created'', Merchant = 12345, Data = None, CreatedAt = 0\<rparr>"]
  by (simp add: On_def NewWebhookHandler_def)


section \<open>Typed events\<close>

text \<open>
  The product and the order conversions return the envelope fields of the generic event
  and, as \<open>Data\<close>, what \<open>json.Unmarshal\<close> decoded from the re-encoded payload.
\<close>

lemma convertToProductEvent_decodes:
  "json_Marshal (Data event) = Inr data \<Longrightarrow> json_Unmarshal data = Inr product \<Longrightarrow>
   convertToProductEvent json_Marshal json_Unmarshal event =
     Inr \<lparr>Event = Event event, Merchant = Merchant event, Data = product,
          CreatedAt = CreatedAt event\<rparr>"
  by (simp add: convertToProductEvent_def)

lemma convertToOrderEvent_decodes:
  "json_Marshal (Data event) = Inr data \<Longrightarrow> json_Unmarshal data = Inr order \<Longrightarrow>
   convertToOrderEvent json_Marshal json_Unmarshal event =
     Inr \<lparr>Event = Event event, Merchant = Merchant event, Data = order,
          CreatedAt = CreatedAt event\<rparr>"
  by (simp add: convertToOrderEvent_def)

end
